theory Spec2Isabelle
  imports Main
begin

section \<open>Data model of Fault\_Tolerant\_Management\_System.cpp\<close>

text \<open>
  The program keeps \<^verbatim>\<open>Resource\<close> and \<^verbatim>\<open>Project\<close> objects on the heap and
  shares them through \<^verbatim>\<open>std::shared_ptr\<close>: the manager's two maps, every project's
  vector and every resource's \<^verbatim>\<open>allocatedProject\<close> hold pointers, so two places can
  name one object, and an object replaced in a map lives on wherever else it is
  referenced. The model therefore has an explicit store. A pointer is the index of
  the object in the list of all objects of its class ever made by
  \<^verbatim>\<open>std::make_shared\<close>; a new object goes to the end of that list. Objects are
  never removed from the store: one that nothing references any more cannot be
  observed by the program.
\<close>

datatype ResourceState = Idle | InUse | UnderMaintenance

type_synonym resource_ptr = nat
type_synonym project_ptr = nat

text \<open>\<^verbatim>\<open>class Resource\<close>; \<^verbatim>\<open>None\<close> is the null \<^verbatim>\<open>allocatedProject\<close>.\<close>

record Resource =
  res_id :: string
  res_type :: string
  res_state :: ResourceState
  allocatedProject :: "project_ptr option"

text \<open>\<^verbatim>\<open>class Project\<close>; the vector \<^verbatim>\<open>resources\<close> in insertion order.\<close>

record Project =
  proj_id :: string
  proj_name :: string
  proj_resources :: "resource_ptr list"

text \<open>
  The whole program state: the two stores, the two \<^verbatim>\<open>std::map\<close> fields of the one
  \<^verbatim>\<open>ResourceManager rm\<close> of \<^verbatim>\<open>main\<close>, the lines of \<^verbatim>\<open>resource_log.txt\<close> written so
  far (one element for each \<^verbatim>\<open>logFile << message << std::endl\<close>), and the characters
  written to \<^verbatim>\<open>std::cout\<close>.
\<close>

record world =
  rheap :: "Resource list"
  pheap :: "Project list"
  resources :: "string \<rightharpoonup> resource_ptr"
  projects :: "string \<rightharpoonup> project_ptr"
  log_file :: "string list"
  cout :: string

text \<open>The only exception the program throws is \<^verbatim>\<open>std::runtime_error(message)\<close>.\<close>

datatype exn = runtime_error string

definition init_world :: world where
  "init_world =
     \<lparr>rheap = [], pheap = [], resources = Map.empty, projects = Map.empty,
      log_file = [], cout = []\<rparr>"

definition print :: "string \<Rightarrow> world \<Rightarrow> world" where
  "print s w = w\<lparr>cout := cout w @ s\<rparr>"

section \<open>Resource and Project\<close>

text \<open>The constructor \<^verbatim>\<open>Resource(id, type)\<close>: state Idle, null project.\<close>

definition Resource_ctor :: "string \<Rightarrow> string \<Rightarrow> Resource" where
  "Resource_ctor i t =
     \<lparr>res_id = i, res_type = t, res_state = Idle, allocatedProject = None\<rparr>"

text \<open>The constructor \<^verbatim>\<open>Project(id, name)\<close>: an empty vector.\<close>

definition Project_ctor :: "string \<Rightarrow> string \<Rightarrow> Project" where
  "Project_ctor i n = \<lparr>proj_id = i, proj_name = n, proj_resources = []\<rparr>"

text \<open>\<^verbatim>\<open>resource->setState(newState)\<close> on the object at \<open>a\<close>.\<close>

definition setState :: "resource_ptr \<Rightarrow> ResourceState \<Rightarrow> world \<Rightarrow> world" where
  "setState a s w = w\<lparr>rheap := (rheap w)[a := (rheap w ! a)\<lparr>res_state := s\<rparr>]\<rparr>"

text \<open>\<^verbatim>\<open>resource->allocateToProject(project)\<close>.\<close>

definition allocateToProject :: "resource_ptr \<Rightarrow> project_ptr \<Rightarrow> world \<Rightarrow> world" where
  "allocateToProject a b w =
     w\<lparr>rheap := (rheap w)[a := (rheap w ! a)\<lparr>allocatedProject := Some b\<rparr>]\<rparr>"

text \<open>
  \<^verbatim>\<open>Project::addResource\<close> on the project at \<open>b\<close>: \<^verbatim>\<open>push_back\<close>, then the
  back-reference \<^verbatim>\<open>shared_from_this()\<close>, which is \<open>b\<close> itself.
\<close>

definition Project_addResource :: "project_ptr \<Rightarrow> resource_ptr \<Rightarrow> world \<Rightarrow> world" where
  "Project_addResource b a w =
     allocateToProject a b
       (w\<lparr>pheap := (pheap w)[b := (pheap w ! b)
             \<lparr>proj_resources := proj_resources (pheap w ! b) @ [a]\<rparr>]\<rparr>)"

section \<open>ResourceManager\<close>

text \<open>\<^verbatim>\<open>resources[id] = std::make_shared<Resource>(id, type)\<close>: no test of \<open>id\<close>.\<close>

definition addResource :: "string \<Rightarrow> string \<Rightarrow> world \<Rightarrow> world" where
  "addResource i t w =
     w\<lparr>rheap := rheap w @ [Resource_ctor i t],
       resources := (resources w)(i \<mapsto> length (rheap w))\<rparr>"

definition getResource :: "string \<Rightarrow> world \<Rightarrow> exn + resource_ptr" where
  "getResource i w =
     (case resources w i of
        Some a \<Rightarrow> Inr a
      | None \<Rightarrow> Inl (runtime_error ''Resource not found''))"

definition logTransaction :: "string \<Rightarrow> world \<Rightarrow> world" where
  "logTransaction message w = w\<lparr>log_file := log_file w @ [message]\<rparr>"

text \<open>
  A method that can throw returns the exception or its value, together with the
  state at that moment: what was done before a \<^verbatim>\<open>throw\<close> stays done.
\<close>

definition allocateResourceToProject ::
  "string \<Rightarrow> project_ptr \<Rightarrow> world \<Rightarrow> (exn + unit) \<times> world" where
  "allocateResourceToProject resourceId project w =
     (case getResource resourceId w of
        Inl e \<Rightarrow> (Inl e, w)
      | Inr resource \<Rightarrow>
          let w1 = setState resource InUse w;
              w2 = Project_addResource project resource w1
          in (Inr (),
              logTransaction
                (''Resource '' @ resourceId @ '' allocated to project '' @
                   proj_name (pheap w2 ! project)) w2))"

text \<open>\<^verbatim>\<open>projects[id] = std::make_shared<Project>(id, name)\<close>: no test of \<open>id\<close>.\<close>

definition addProject :: "string \<Rightarrow> string \<Rightarrow> world \<Rightarrow> world" where
  "addProject i n w =
     w\<lparr>pheap := pheap w @ [Project_ctor i n],
       projects := (projects w)(i \<mapsto> length (pheap w))\<rparr>"

definition getProject :: "string \<Rightarrow> world \<Rightarrow> exn + project_ptr" where
  "getProject i w =
     (case projects w i of
        Some b \<Rightarrow> Inr b
      | None \<Rightarrow> Inl (runtime_error ''Project not found''))"

text \<open>The text the \<^verbatim>\<open>switch\<close> of \<^verbatim>\<open>displayResourceState\<close> writes for one resource.\<close>

definition state_text :: "world \<Rightarrow> Resource \<Rightarrow> string" where
  "state_text w r =
     (case res_state r of
        Idle \<Rightarrow> ''Idle''
      | InUse \<Rightarrow> ''In Use''
      | UnderMaintenance \<Rightarrow>
          ''under maintenance'' @
          (case allocatedProject r of
             Some project \<Rightarrow> '' and allocated to project '' @ proj_name (pheap w ! project)
           | None \<Rightarrow> []))"

definition displayResourceState :: "string \<Rightarrow> world \<Rightarrow> (exn + unit) \<times> world" where
  "displayResourceState i w =
     (case getResource i w of
        Inl e \<Rightarrow> (Inl e, w)
      | Inr resource \<Rightarrow>
          (Inr (),
           print (''Resource '' @ i @ '' is '' @ state_text w (rheap w ! resource) @
                  ''.\<newline>'') w))"

definition maintainResource :: "string \<Rightarrow> world \<Rightarrow> (exn + unit) \<times> world" where
  "maintainResource i w =
     (case getResource i w of
        Inl e \<Rightarrow> (Inl e, w)
      | Inr resource \<Rightarrow>
          if res_type (rheap w ! resource) = ''equipment''
          then (Inr (),
                print (''Resource '' @ i @ '' is under maintenance.\<newline>'')
                  (logTransaction (''Resource '' @ i @ '' is under maintenance.'')
                     (setState resource UnderMaintenance w)))
          else (Inr (),
                print (''Resource '' @ i @
                       '' is not equipment and cannot be maintained.\<newline>'') w))"

section \<open>The command loop of main\<close>

text \<open>
  One value of \<open>input\<close> is what \<^verbatim>\<open>std::cin\<close> delivers to one iteration of the
  \<^verbatim>\<open>do\<close> loop: the menu choice with the operands its \<^verbatim>\<open>case\<close> reads. The spec names
  the six commands registerResource, markInUse, maintain, registerProject, allocate
  and describeState.
\<close>

datatype input =
    AddResource string int
  | UseResource string
  | MaintainResource string
  | AddProject string string
  | AllocateResource string string
  | DisplayResourceState string
  | Exit
  | InvalidChoice

text \<open>The body of the \<^verbatim>\<open>switch (choice)\<close>, case by case.\<close>

fun main_case :: "input \<Rightarrow> world \<Rightarrow> (exn + unit) \<times> world" where
  "main_case (AddResource i typeChoice) w =
     (let w1 = print ''Enter Resource ID to add: '' w;
          w2 = print ''Select Resource Type (1. Worker, 2. Equipment): '' w1;
          t = (if typeChoice = 1 then ''worker'' else ''equipment'');
          w3 = addResource i t w2;
          w4 = print (''Resource '' @ i @ '' of type '' @ t @ '' added.\<newline>'') w3
      in (Inr (), logTransaction (''Resource '' @ i @ '' of type '' @ t @ '' added.'') w4))"
| "main_case (UseResource i) w =
     (let w1 = print ''Enter Resource ID to use: '' w
      in case getResource i w1 of
           Inl e \<Rightarrow> (Inl e, w1)
         | Inr resource \<Rightarrow>
             let w2 = setState resource InUse w1;
                 w3 = print (''Resource '' @ i @ '' is now in use.\<newline>'') w2
             in (Inr (), logTransaction (''Resource '' @ i @ '' is now in use.'') w3))"
| "main_case (MaintainResource i) w =
     maintainResource i (print ''Enter Resource ID to maintain: '' w)"
| "main_case (AddProject i n) w =
     (let w1 = print ''Enter Project ID to add: '' w;
          w2 = print ''Enter Project Name: '' w1;
          w3 = addProject i n w2;
          w4 = print (''Project '' @ i @ '' named '' @ n @ '' added.\<newline>'') w3
      in (Inr (), logTransaction (''Project '' @ i @ '' named '' @ n @ '' added.'') w4))"
| "main_case (AllocateResource i n) w =
     (let w1 = print ''Enter Resource ID to allocate: '' w;
          w2 = print ''Enter Project ID to allocate to: '' w1
      in case getProject n w2 of
           Inl e \<Rightarrow> (Inl e, w2)
         | Inr project \<Rightarrow>
             (case allocateResourceToProject i project w2 of
                (Inl e, w3) \<Rightarrow> (Inl e, w3)
              | (Inr u, w3) \<Rightarrow>
                  (Inr (),
                   print (''Resource '' @ i @ '' allocated to project '' @ n @
                          ''.\<newline>'') w3)))"
| "main_case (DisplayResourceState i) w =
     displayResourceState i (print ''Enter Resource ID to display state: '' w)"
| "main_case Exit w = (Inr (), print ''Exiting...\<newline>'' w)"
| "main_case InvalidChoice w =
     (Inr (), print ''Invalid choice. Please try again.\<newline>'' w)"

definition menu :: string where
  "menu = ''1. Add Resource\<newline>2. Use Resource\<newline>3. Maintain Resource\<newline>4. Add Project\<newline>5. Allocate Resource to Project\<newline>6. Display Resource State\<newline>7. Exit\<newline>Enter your choice: ''"

text \<open>One iteration of the loop: the menu, then the case.\<close>

definition main_step :: "input \<Rightarrow> world \<Rightarrow> (exn + unit) \<times> world" where
  "main_step c w = main_case c (print menu w)"

text \<open>
  The \<^verbatim>\<open>do ... while (choice != 7)\<close> loop on the inputs \<open>cs\<close>. The \<^verbatim>\<open>try\<close> block
  encloses the whole loop, so the first exception ends it; so does Exit. The model
  also stops when the given inputs are used up.
\<close>

fun run :: "input list \<Rightarrow> world \<Rightarrow> (exn + unit) \<times> world" where
  "run [] w = (Inr (), w)"
| "run (c # cs) w =
     (case main_step c w of
        (Inl e, w') \<Rightarrow> (Inl e, w')
      | (Inr u, w') \<Rightarrow> if c = Exit then (Inr (), w') else run cs w')"

text \<open>
  The states the program can be in: the initial one, and the one after any iteration
  started in such a state. A state left by an exception is included, and so are the
  states that further commands would lead to from it (the spec's shell goes on after
  a failure, the source's \<^verbatim>\<open>main\<close> ends): the set only grows by that.
\<close>

inductive reachable :: "world \<Rightarrow> bool" where
  reachable_init: "reachable init_world"
| reachable_step: "reachable w \<Longrightarrow> main_step c w = (r, w') \<Longrightarrow> reachable w'"

section \<open>Observations, invariants and example states\<close>

text \<open>What two states share when they differ in the console output at most.\<close>

definition same_data :: "world \<Rightarrow> world \<Rightarrow> bool" where
  "same_data w w' \<longleftrightarrow>
     rheap w' = rheap w \<and> pheap w' = pheap w \<and> resources w' = resources w \<and>
     projects w' = projects w \<and> log_file w' = log_file w"

text \<open>
  The state of the resource that the manager's map holds under \<open>i\<close>, which is the
  one \<^verbatim>\<open>displayResourceState\<close> reports.
\<close>

definition state_of :: "world \<Rightarrow> string \<Rightarrow> ResourceState option" where
  "state_of w i = map_option (\<lambda>a. res_state (rheap w ! a)) (resources w i)"

text \<open>
  Every pointer held anywhere names an object of the store. A \<^verbatim>\<open>shared_ptr\<close> can
  only be that, so this is true of every state of the program.
\<close>

definition wf_world :: "world \<Rightarrow> bool" where
  "wf_world w \<longleftrightarrow>
     (\<forall>i a. resources w i = Some a \<longrightarrow> a < length (rheap w)) \<and>
     (\<forall>i b. projects w i = Some b \<longrightarrow> b < length (pheap w)) \<and>
     (\<forall>b<length (pheap w). \<forall>a\<in>set (proj_resources (pheap w ! b)).
        a < length (rheap w)) \<and>
     (\<forall>a<length (rheap w). \<forall>b.
        allocatedProject (rheap w ! a) = Some b \<longrightarrow> b < length (pheap w))"

text \<open>An Idle resource has a null \<^verbatim>\<open>allocatedProject\<close>.\<close>

definition idle_unallocated :: "world \<Rightarrow> bool" where
  "idle_unallocated w \<longleftrightarrow>
     (\<forall>a<length (rheap w).
        res_state (rheap w ! a) = Idle \<longrightarrow> allocatedProject (rheap w ! a) = None)"

text \<open>Every resource in a project's vector points back to that project.\<close>

definition list_backref_inv :: "world \<Rightarrow> bool" where
  "list_backref_inv w \<longleftrightarrow>
     (\<forall>b<length (pheap w). \<forall>a\<in>set (proj_resources (pheap w ! b)).
        allocatedProject (rheap w ! a) = Some b)"

text \<open>The converse: a resource is in the vector of the project it points back to.\<close>

definition backref_listed :: "world \<Rightarrow> bool" where
  "backref_listed w \<longleftrightarrow>
     (\<forall>a<length (rheap w). \<forall>b.
        allocatedProject (rheap w ! a) = Some b \<longrightarrow>
        a \<in> set (proj_resources (pheap w ! b)))"

text \<open>Every resource in a project's vector points back to some project.\<close>

definition listed_allocated :: "world \<Rightarrow> bool" where
  "listed_allocated w \<longleftrightarrow>
     (\<forall>b<length (pheap w). \<forall>a\<in>set (proj_resources (pheap w ! b)).
        allocatedProject (rheap w ! a) \<noteq> None)"

text \<open>
  Every resource in a project's vector points back to a project whose vector has it.
\<close>

definition listed_backref_some :: "world \<Rightarrow> bool" where
  "listed_backref_some w \<longleftrightarrow>
     (\<forall>b<length (pheap w). \<forall>a\<in>set (proj_resources (pheap w ! b)).
        \<exists>b'<length (pheap w). allocatedProject (rheap w ! a) = Some b' \<and>
           a \<in> set (proj_resources (pheap w ! b')))"

text \<open>
  The command allocates a resource that now points back to a different project than
  the one named.
\<close>

definition reallocates :: "input \<Rightarrow> world \<Rightarrow> bool" where
  "reallocates c w =
     (case c of
        AllocateResource i n \<Rightarrow>
          (case (resources w i, projects w n) of
             (Some a, Some b) \<Rightarrow>
               (case allocatedProject (rheap w ! a) of
                  Some b' \<Rightarrow> b' \<noteq> b
                | None \<Rightarrow> False)
           | _ \<Rightarrow> False)
      | _ \<Rightarrow> False)"

text \<open>The states reached without any such allocation.\<close>

inductive reachable_without_reallocation :: "world \<Rightarrow> bool" where
  rwr_init: "reachable_without_reallocation init_world"
| rwr_step: "reachable_without_reallocation w \<Longrightarrow> \<not> reallocates c w \<Longrightarrow>
     main_step c w = (r, w') \<Longrightarrow> reachable_without_reallocation w'"

fun no_reallocation :: "input list \<Rightarrow> world \<Rightarrow> bool" where
  "no_reallocation [] w = True"
| "no_reallocation (c # cs) w =
     (\<not> reallocates c w \<and> no_reallocation cs (snd (main_step c w)))"

text \<open>
  Four runs used as examples. The first registers equipment R1, project P1 named Alpha
  and worker R2, as the scenarios of the spec do.
\<close>

definition registered_world :: world where
  "registered_world =
     snd (run [AddResource ''R1'' 2, AddProject ''P1'' ''Alpha'', AddResource ''R2'' 1]
            init_world)"

definition used_world :: world where
  "used_world = snd (run [AddResource ''R1'' 2, UseResource ''R1''] init_world)"

definition maintained_world :: world where
  "maintained_world =
     snd (run [AddResource ''R1'' 2, AddProject ''P1'' ''Alpha'',
               AllocateResource ''R1'' ''P1'', MaintainResource ''R1''] init_world)"

definition reallocated_world :: world where
  "reallocated_world =
     snd (run [AddResource ''R1'' 1, AddProject ''P1'' ''Alpha'',
               AddProject ''P2'' ''Beta'', AllocateResource ''R1'' ''P1'',
               AllocateResource ''R1'' ''P2''] init_world)"

section \<open>Unfolding the operations\<close>

lemmas op_defs = print_def setState_def allocateToProject_def Project_addResource_def
  addResource_def getResource_def logTransaction_def allocateResourceToProject_def
  addProject_def getProject_def displayResourceState_def maintainResource_def
  main_step_def Resource_ctor_def Project_ctor_def

lemma registered_world_data:
  "rheap registered_world =
     [Resource_ctor ''R1'' ''equipment'', Resource_ctor ''R2'' ''worker'']"
  "pheap registered_world = [Project_ctor ''P1'' ''Alpha'']"
  "resources registered_world = [''R1'' \<mapsto> 0, ''R2'' \<mapsto> 1]"
  "projects registered_world = [''P1'' \<mapsto> 0]"
  by (simp_all add: registered_world_def op_defs Let_def init_world_def)

lemma used_world_data:
  "rheap used_world =
     [\<lparr>res_id = ''R1'', res_type = ''equipment'', res_state = InUse, allocatedProject = None\<rparr>]"
  "pheap used_world = []"
  "resources used_world = [''R1'' \<mapsto> 0]"
  "projects used_world = Map.empty"
  by (simp_all add: used_world_def op_defs Let_def init_world_def)

lemma maintained_world_data:
  "rheap maintained_world =
     [\<lparr>res_id = ''R1'', res_type = ''equipment'', res_state = UnderMaintenance, allocatedProject = Some 0\<rparr>]"
  "pheap maintained_world = [\<lparr>proj_id = ''P1'', proj_name = ''Alpha'', proj_resources = [0]\<rparr>]"
  "resources maintained_world = [''R1'' \<mapsto> 0]"
  "projects maintained_world = [''P1'' \<mapsto> 0]"
  by (simp_all add: maintained_world_def op_defs Let_def init_world_def)

lemma reallocated_world_data:
  "rheap reallocated_world =
     [\<lparr>res_id = ''R1'', res_type = ''worker'', res_state = InUse, allocatedProject = Some 1\<rparr>]"
  "pheap reallocated_world =
     [\<lparr>proj_id = ''P1'', proj_name = ''Alpha'', proj_resources = [0]\<rparr>,
      \<lparr>proj_id = ''P2'', proj_name = ''Beta'', proj_resources = [0]\<rparr>]"
  "resources reallocated_world = [''R1'' \<mapsto> 0]"
  "projects reallocated_world = [''P1'' \<mapsto> 0, ''P2'' \<mapsto> 1]"
  by (simp_all add: reallocated_world_def op_defs Let_def init_world_def)

text \<open>
  Reading a list after an update at any index, in range or not: \<^verbatim>\<open>xs[a := x]\<close> is
  \<open>xs\<close> itself when \<open>a\<close> is out of range.
\<close>

lemma nth_list_update_any:
  "xs[a := x] ! j = (if j = a \<and> a < length xs then x else xs ! j)"
  by (cases "a < length xs") (auto simp: nth_list_update list_update_beyond)

section \<open>The effect of one iteration on the data\<close>

lemma add_resource_effect:
  "main_step (AddResource i tc) w = (r, w') \<Longrightarrow>
   r = Inr () \<and>
   rheap w' = rheap w @ [Resource_ctor i (if tc = 1 then ''worker'' else ''equipment'')] \<and>
   resources w' = (resources w)(i \<mapsto> length (rheap w)) \<and>
   pheap w' = pheap w \<and> projects w' = projects w"
  by (auto simp: op_defs Let_def)

lemma add_project_effect:
  "main_step (AddProject i n) w = (r, w') \<Longrightarrow>
   r = Inr () \<and> pheap w' = pheap w @ [Project_ctor i n] \<and>
   projects w' = (projects w)(i \<mapsto> length (pheap w)) \<and>
   rheap w' = rheap w \<and> resources w' = resources w"
  by (auto simp: op_defs Let_def)

lemma use_effect:
  "resources w i = Some a \<Longrightarrow> main_step (UseResource i) w = (r, w') \<Longrightarrow>
   r = Inr () \<and> rheap w' = (rheap w)[a := (rheap w ! a)\<lparr>res_state := InUse\<rparr>] \<and>
   pheap w' = pheap w \<and> resources w' = resources w \<and> projects w' = projects w \<and>
   log_file w' = log_file w @ [''Resource '' @ i @ '' is now in use.'']"
  by (auto simp: op_defs Let_def)

lemma maintain_effect:
  "resources w i = Some a \<Longrightarrow> main_step (MaintainResource i) w = (r, w') \<Longrightarrow>
   r = Inr () \<and> pheap w' = pheap w \<and> resources w' = resources w \<and> projects w' = projects w \<and>
   rheap w' = (if res_type (rheap w ! a) = ''equipment''
               then (rheap w)[a := (rheap w ! a)\<lparr>res_state := UnderMaintenance\<rparr>]
               else rheap w) \<and>
   log_file w' = (if res_type (rheap w ! a) = ''equipment''
               then log_file w @ [''Resource '' @ i @ '' is under maintenance.'']
               else log_file w)"
  by (auto simp: op_defs Let_def split: if_splits)

lemma allocate_effect:
  "resources w i = Some a \<Longrightarrow> projects w n = Some b \<Longrightarrow>
   main_step (AllocateResource i n) w = (r, w') \<Longrightarrow>
   r = Inr () \<and>
   rheap w' = ((rheap w)[a := (rheap w ! a)\<lparr>res_state := InUse\<rparr>])
                [a := ((rheap w)[a := (rheap w ! a)\<lparr>res_state := InUse\<rparr>] ! a)\<lparr>allocatedProject := Some b\<rparr>] \<and>
   pheap w' = (pheap w)[b := (pheap w ! b)\<lparr>proj_resources := proj_resources (pheap w ! b) @ [a]\<rparr>] \<and>
   resources w' = resources w \<and> projects w' = projects w"
  by (auto simp: op_defs Let_def)

lemma allocate_effect_valid:
  "resources w i = Some a \<Longrightarrow> a < length (rheap w) \<Longrightarrow> projects w n = Some b \<Longrightarrow>
   main_step (AllocateResource i n) w = (r, w') \<Longrightarrow>
   r = Inr () \<and>
   rheap w' = (rheap w)[a := (rheap w ! a)\<lparr>res_state := InUse, allocatedProject := Some b\<rparr>] \<and>
   pheap w' = (pheap w)[b := (pheap w ! b)\<lparr>proj_resources := proj_resources (pheap w ! b) @ [a]\<rparr>] \<and>
   resources w' = resources w \<and> projects w' = projects w"
  by (auto simp: op_defs Let_def)

lemma failed_effect:
  "main_step c w = (Inl e, w') \<Longrightarrow> same_data w w'"
  by (cases c) (auto simp: op_defs Let_def same_data_def split: option.splits sum.splits if_splits prod.splits)

lemma other_effect:
  "c = DisplayResourceState i \<or> c = Exit \<or> c = InvalidChoice \<Longrightarrow>
   main_step c w = (r, w') \<Longrightarrow> same_data w w'"
  by (auto simp: op_defs Let_def same_data_def split: option.splits)

text \<open>Whatever the command, the data changes in one of five ways.\<close>

lemma step_shapes:
  assumes "main_step c w = (r, w')"
  shows "same_data w w' \<or>
    (\<exists>i t. rheap w' = rheap w @ [Resource_ctor i t] \<and> resources w' = (resources w)(i \<mapsto> length (rheap w)) \<and>
        pheap w' = pheap w \<and> projects w' = projects w) \<or>
    (\<exists>i n. pheap w' = pheap w @ [Project_ctor i n] \<and> projects w' = (projects w)(i \<mapsto> length (pheap w)) \<and>
        rheap w' = rheap w \<and> resources w' = resources w) \<or>
    (\<exists>i a s. resources w i = Some a \<and> s \<noteq> Idle \<and> rheap w' = (rheap w)[a := (rheap w ! a)\<lparr>res_state := s\<rparr>] \<and>
        pheap w' = pheap w \<and> resources w' = resources w \<and> projects w' = projects w) \<or>
    (\<exists>i n a b. resources w i = Some a \<and> projects w n = Some b \<and> c = AllocateResource i n \<and>
        rheap w' = ((rheap w)[a := (rheap w ! a)\<lparr>res_state := InUse\<rparr>])
                [a := ((rheap w)[a := (rheap w ! a)\<lparr>res_state := InUse\<rparr>] ! a)\<lparr>allocatedProject := Some b\<rparr>] \<and>
        pheap w' = (pheap w)[b := (pheap w ! b)\<lparr>proj_resources := proj_resources (pheap w ! b) @ [a]\<rparr>] \<and>
        resources w' = resources w \<and> projects w' = projects w)"
proof (cases r)
  case (Inl e)
  then show ?thesis using assms failed_effect by blast
next
  case (Inr u)
  show ?thesis
  proof (cases c)
    case (AddResource i tc)
    then show ?thesis using assms add_resource_effect [of i tc w r w'] by blast
  next
    case (UseResource i)
    then obtain a where "resources w i = Some a"
      using assms Inr by (auto simp: op_defs Let_def split: option.splits)
    then show ?thesis using assms UseResource use_effect [of w i a r w'] by blast
  next
    case (MaintainResource i)
    then obtain a where a: "resources w i = Some a"
      using assms Inr by (auto simp: op_defs Let_def split: option.splits)
    show ?thesis
    proof (cases "res_type (rheap w ! a) = ''equipment''")
      case True
      then show ?thesis using assms MaintainResource a maintain_effect [of w i a r w'] by fastforce
    next
      case False
      then have "same_data w w'"
        using assms MaintainResource a maintain_effect [of w i a r w'] by (simp add: same_data_def)
      then show ?thesis by blast
    qed
  next
    case (AddProject i n)
    then show ?thesis using assms add_project_effect [of i n w r w'] by blast
  next
    case (AllocateResource i n)
    then obtain a b where "resources w i = Some a" "projects w n = Some b"
      using assms Inr by (auto simp: op_defs Let_def split: option.splits)
    then show ?thesis using assms AllocateResource allocate_effect [of w i a n b r w'] by blast
  next
    case (DisplayResourceState i)
    then show ?thesis using assms other_effect by blast
  next
    case Exit
    then show ?thesis using assms other_effect by blast
  next
    case InvalidChoice
    then show ?thesis using assms other_effect by blast
  qed
qed

section \<open>Reachable states\<close>

lemma run_reachable: "reachable w \<Longrightarrow> reachable (snd (run cs w))"
proof (induction cs arbitrary: w)
  case Nil
  then show ?case by simp
next
  case (Cons c cs)
  have "reachable (snd (main_step c w))"
    using Cons.prems reachable_step [of w c "fst (main_step c w)" "snd (main_step c w)"]
    by simp
  then show ?case
    using Cons.IH [of "snd (main_step c w)"]
    by (auto split: prod.splits sum.splits)
qed

lemma rwr_reachable: "reachable_without_reallocation w \<Longrightarrow> reachable w"
  by (induction rule: reachable_without_reallocation.induct)
    (auto intro: reachable.intros)

lemma run_rwr:
  "reachable_without_reallocation w \<Longrightarrow> no_reallocation cs w \<Longrightarrow>
   reachable_without_reallocation (snd (run cs w))"
proof (induction cs arbitrary: w)
  case Nil
  then show ?case by simp
next
  case (Cons c cs)
  have "reachable_without_reallocation (snd (main_step c w))"
    using Cons.prems rwr_step [of w c "fst (main_step c w)" "snd (main_step c w)"]
    by simp
  then show ?case
    using Cons.IH [of "snd (main_step c w)"] Cons.prems(2)
    by (auto split: prod.splits sum.splits)
qed

lemma reachable_examples:
  "reachable registered_world" "reachable reallocated_world"
  unfolding registered_world_def reallocated_world_def
  by (rule run_reachable [OF reachable_init])+

subsection \<open>Pointers stay valid\<close>

lemma wf_init: "wf_world init_world"
  by (simp add: wf_world_def init_world_def)

lemma wf_step:
  assumes "wf_world w" and "main_step c w = (r, w')"
  shows "wf_world w'"
  using step_shapes [OF assms(2)]
proof (elim disjE exE conjE)
  assume "same_data w w'"
  then show ?thesis using assms(1) by (simp add: wf_world_def same_data_def)
next
  fix i t
  assume "rheap w' = rheap w @ [Resource_ctor i t]"
    "resources w' = (resources w)(i \<mapsto> length (rheap w))"
    "pheap w' = pheap w" "projects w' = projects w"
  then show ?thesis using assms(1)
    by (auto simp: wf_world_def nth_append Resource_ctor_def less_Suc_eq)
next
  fix i n
  assume "pheap w' = pheap w @ [Project_ctor i n]"
    "projects w' = (projects w)(i \<mapsto> length (pheap w))"
    "rheap w' = rheap w" "resources w' = resources w"
  then show ?thesis using assms(1)
    by (auto simp: wf_world_def nth_append Project_ctor_def less_Suc_eq)
next
  fix i a s
  assume "rheap w' = (rheap w)[a := (rheap w ! a)\<lparr>res_state := s\<rparr>]"
    "pheap w' = pheap w" "resources w' = resources w" "projects w' = projects w"
  then show ?thesis using assms(1)
    by (auto simp: wf_world_def nth_list_update_any)
next
  fix i n a b
  assume h: "resources w i = Some a" "projects w n = Some b"
    "rheap w' = ((rheap w)[a := (rheap w ! a)\<lparr>res_state := InUse\<rparr>])
                [a := ((rheap w)[a := (rheap w ! a)\<lparr>res_state := InUse\<rparr>] ! a)\<lparr>allocatedProject := Some b\<rparr>]"
    "pheap w' = (pheap w)[b := (pheap w ! b)\<lparr>proj_resources := proj_resources (pheap w ! b) @ [a]\<rparr>]"
    "resources w' = resources w" "projects w' = projects w"
  have a: "a < length (rheap w)" and b: "b < length (pheap w)"
    using h(1,2) assms(1) by (auto simp: wf_world_def)
  have listed: "\<forall>b'<length (pheap w'). \<forall>a'\<in>set (proj_resources (pheap w' ! b')).
      a' < length (rheap w')"
  proof (intro allI impI ballI)
    fix b' a'
    assume b': "b' < length (pheap w')" and "a' \<in> set (proj_resources (pheap w' ! b'))"
    then have "a' = a \<or> a' \<in> set (proj_resources (pheap w ! b'))"
      using h(4) by (auto simp: nth_list_update_any split: if_splits)
    then show "a' < length (rheap w')"
      using a b' assms(1) h(3,4) by (auto simp: wf_world_def)
  qed
  have backrefs: "\<forall>a'<length (rheap w'). \<forall>b'.
      allocatedProject (rheap w' ! a') = Some b' \<longrightarrow> b' < length (pheap w')"
    using a b assms(1) h(3,4) by (auto simp: wf_world_def nth_list_update_any split: if_splits)
  have maps: "(\<forall>i a. resources w' i = Some a \<longrightarrow> a < length (rheap w')) \<and>
      (\<forall>i b. projects w' i = Some b \<longrightarrow> b < length (pheap w'))"
    using assms(1) h(3-6) by (simp add: wf_world_def)
  show ?thesis
    unfolding wf_world_def using maps listed backrefs by blast
qed

lemma reachable_wf: "reachable w \<Longrightarrow> wf_world w"
  by (induction rule: reachable.induct) (auto intro: wf_init wf_step)

subsection \<open>Links between projects and resources\<close>

lemma idle_init: "idle_unallocated init_world"
  by (simp add: idle_unallocated_def init_world_def)

lemma idle_step:
  assumes "idle_unallocated w" and "main_step c w = (r, w')"
  shows "idle_unallocated w'"
  using step_shapes [OF assms(2)]
proof (elim disjE exE conjE)
  assume "same_data w w'"
  then show ?thesis using assms(1) by (simp add: idle_unallocated_def same_data_def)
next
  fix i t
  assume "rheap w' = rheap w @ [Resource_ctor i t]"
  then show ?thesis using assms(1)
    by (auto simp: idle_unallocated_def nth_append Resource_ctor_def less_Suc_eq)
next
  fix i n
  assume "rheap w' = rheap w" 
  then show ?thesis using assms(1)
    by (auto simp: idle_unallocated_def)
next
  fix i a s
  assume "rheap w' = (rheap w)[a := (rheap w ! a)\<lparr>res_state := s\<rparr>]" "s \<noteq> Idle"
  then show ?thesis using assms(1)
    by (auto simp: idle_unallocated_def nth_list_update_any)
next
  fix i n a b
  assume 
    "rheap w' = ((rheap w)[a := (rheap w ! a)\<lparr>res_state := InUse\<rparr>])
                [a := ((rheap w)[a := (rheap w ! a)\<lparr>res_state := InUse\<rparr>] ! a)\<lparr>allocatedProject := Some b\<rparr>]"
  then show ?thesis using assms(1)
    by (auto simp: idle_unallocated_def nth_list_update_any)
qed

lemma list_inv_step:
  assumes "list_backref_inv w" and "wf_world w" and "\<not> reallocates c w"
    and "main_step c w = (r, w')"
  shows "list_backref_inv w'"
  using step_shapes [OF assms(4)]
proof (elim disjE exE conjE)
  assume "same_data w w'"
  then show ?thesis using assms(1) by (simp add: list_backref_inv_def same_data_def)
next
  fix i t
  assume "rheap w' = rheap w @ [Resource_ctor i t]" "pheap w' = pheap w"
  then show ?thesis using assms(1,2)
    by (auto simp: list_backref_inv_def wf_world_def nth_append)
next
  fix i n
  assume "pheap w' = pheap w @ [Project_ctor i n]" "rheap w' = rheap w"
  then show ?thesis using assms(1)
    by (auto simp: list_backref_inv_def nth_append Project_ctor_def less_Suc_eq)
next
  fix i a s
  assume "rheap w' = (rheap w)[a := (rheap w ! a)\<lparr>res_state := s\<rparr>]" "pheap w' = pheap w"
  then show ?thesis using assms(1,2)
    by (auto simp: list_backref_inv_def wf_world_def nth_list_update_any)
next
  fix i n a b
  assume h: "resources w i = Some a" "projects w n = Some b" "c = AllocateResource i n"
    "rheap w' = ((rheap w)[a := (rheap w ! a)\<lparr>res_state := InUse\<rparr>])
                [a := ((rheap w)[a := (rheap w ! a)\<lparr>res_state := InUse\<rparr>] ! a)\<lparr>allocatedProject := Some b\<rparr>]"
    "pheap w' = (pheap w)[b := (pheap w ! b)\<lparr>proj_resources := proj_resources (pheap w ! b) @ [a]\<rparr>]"
  have a: "a < length (rheap w)" and b: "b < length (pheap w)"
    using h(1,2) assms(2) by (auto simp: wf_world_def)
  have nr: "allocatedProject (rheap w ! a) = None \<or> allocatedProject (rheap w ! a) = Some b"
    using assms(3) h(1,2,3) by (auto simp: reallocates_def split: option.splits)
  show ?thesis
    unfolding list_backref_inv_def
  proof (intro allI impI ballI)
    fix b' a'
    assume b': "b' < length (pheap w')" and a': "a' \<in> set (proj_resources (pheap w' ! b'))"
    show "allocatedProject (rheap w' ! a') = Some b'"
    proof (cases "a' = a")
      case True
      have "b' = b"
      proof (rule ccontr)
        assume "b' \<noteq> b"
        then have "a \<in> set (proj_resources (pheap w ! b'))" using a' b' h(5) True by simp
        then have "allocatedProject (rheap w ! a) = Some b'"
          using assms(1) b' h(5) by (simp add: list_backref_inv_def)
        then show False using nr \<open>b' \<noteq> b\<close> by auto
      qed
      then show ?thesis using True a h(4) by simp
    next
      case False
      then have "a' \<in> set (proj_resources (pheap w ! b'))"
        using a' b' h(5) by (cases "b' = b") auto
      then have "allocatedProject (rheap w ! a') = Some b'"
        using assms(1) b' h(5) by (simp add: list_backref_inv_def)
      then show ?thesis using False h(4) by simp
    qed
  qed
qed

lemma backref_listed_step:
  assumes "backref_listed w" and "wf_world w" and "main_step c w = (r, w')"
  shows "backref_listed w'"
  using step_shapes [OF assms(3)]
proof (elim disjE exE conjE)
  assume "same_data w w'"
  then show ?thesis using assms(1) by (simp add: backref_listed_def same_data_def)
next
  fix i t
  assume "rheap w' = rheap w @ [Resource_ctor i t]" "pheap w' = pheap w"
  then show ?thesis using assms(1)
    by (auto simp: backref_listed_def nth_append Resource_ctor_def less_Suc_eq)
next
  fix i n
  assume "pheap w' = pheap w @ [Project_ctor i n]" "rheap w' = rheap w"
  then show ?thesis using assms(1,2)
    by (auto simp: backref_listed_def wf_world_def nth_append)
next
  fix i a s
  assume "rheap w' = (rheap w)[a := (rheap w ! a)\<lparr>res_state := s\<rparr>]" "pheap w' = pheap w"
  then show ?thesis using assms(1)
    by (auto simp: backref_listed_def nth_list_update_any split: if_splits)
next
  fix i n a b
  assume h: "resources w i = Some a" "projects w n = Some b"
    "rheap w' = ((rheap w)[a := (rheap w ! a)\<lparr>res_state := InUse\<rparr>])
                [a := ((rheap w)[a := (rheap w ! a)\<lparr>res_state := InUse\<rparr>] ! a)\<lparr>allocatedProject := Some b\<rparr>]"
    "pheap w' = (pheap w)[b := (pheap w ! b)\<lparr>proj_resources := proj_resources (pheap w ! b) @ [a]\<rparr>]"
  have a: "a < length (rheap w)" and b: "b < length (pheap w)"
    using h(1,2) assms(2) by (auto simp: wf_world_def)
  show ?thesis
    unfolding backref_listed_def
  proof (intro allI impI)
    fix a' b'
    assume a': "a' < length (rheap w')" and br: "allocatedProject (rheap w' ! a') = Some b'"
    show "a' \<in> set (proj_resources (pheap w' ! b'))"
    proof (cases "a' = a")
      case True
      then have "b' = b" using br a h(3) by simp
      then show ?thesis using True b h(4) by simp
    next
      case False
      then have "allocatedProject (rheap w ! a') = Some b'" using br h(3) by simp
      then have "a' \<in> set (proj_resources (pheap w ! b'))"
        using assms(1) a' h(3) by (simp add: backref_listed_def)
      then show ?thesis using h(4) by (auto simp: nth_list_update_any)
    qed
  qed
qed

lemma listed_allocated_step:
  assumes "listed_allocated w" and "wf_world w" and "main_step c w = (r, w')"
  shows "listed_allocated w'"
  using step_shapes [OF assms(3)]
proof (elim disjE exE conjE)
  assume "same_data w w'"
  then show ?thesis using assms(1) by (simp add: listed_allocated_def same_data_def)
next
  fix i t
  assume "rheap w' = rheap w @ [Resource_ctor i t]" "pheap w' = pheap w"
  then show ?thesis using assms(1,2)
    by (auto simp: listed_allocated_def wf_world_def nth_append)
next
  fix i n
  assume "pheap w' = pheap w @ [Project_ctor i n]" "rheap w' = rheap w"
  then show ?thesis using assms(1)
    by (auto simp: listed_allocated_def nth_append Project_ctor_def less_Suc_eq)
next
  fix i a s
  assume "rheap w' = (rheap w)[a := (rheap w ! a)\<lparr>res_state := s\<rparr>]" "pheap w' = pheap w"
  then show ?thesis using assms(1)
    by (auto simp: listed_allocated_def nth_list_update_any)
next
  fix i n a b
  assume h: "resources w i = Some a" "projects w n = Some b"
    "rheap w' = ((rheap w)[a := (rheap w ! a)\<lparr>res_state := InUse\<rparr>])
                [a := ((rheap w)[a := (rheap w ! a)\<lparr>res_state := InUse\<rparr>] ! a)\<lparr>allocatedProject := Some b\<rparr>]"
    "pheap w' = (pheap w)[b := (pheap w ! b)\<lparr>proj_resources := proj_resources (pheap w ! b) @ [a]\<rparr>]"
  have a: "a < length (rheap w)" and b: "b < length (pheap w)"
    using h(1,2) assms(2) by (auto simp: wf_world_def)
  show ?thesis
    unfolding listed_allocated_def
  proof (intro allI impI ballI)
    fix b' a'
    assume b': "b' < length (pheap w')" and a': "a' \<in> set (proj_resources (pheap w' ! b'))"
    show "allocatedProject (rheap w' ! a') \<noteq> None"
    proof (cases "a' = a")
      case True
      then show ?thesis using a h(3) by simp
    next
      case False
      then have "a' \<in> set (proj_resources (pheap w ! b'))"
        using a' b' h(4) by (cases "b' = b") auto
      then have "allocatedProject (rheap w ! a') \<noteq> None"
        using assms(1) b' h(4) by (simp add: listed_allocated_def)
      then show ?thesis using False h(3) by simp
    qed
  qed
qed

lemma reachable_links:
  "reachable w \<Longrightarrow> wf_world w \<and> backref_listed w \<and> listed_allocated w"
proof (induction rule: reachable.induct)
  case reachable_init
  show ?case
    by (simp add: wf_world_def backref_listed_def listed_allocated_def init_world_def)
next
  case (reachable_step w c r w')
  then show ?case
    using wf_step backref_listed_step listed_allocated_step by blast
qed

subsection \<open>States and bindings along a run\<close>

lemma nonidle_step:
  assumes "a < length (rheap w)" and "res_state (rheap w ! a) \<noteq> Idle"
    and "main_step c w = (r, w')"
  shows "a < length (rheap w') \<and> res_state (rheap w' ! a) \<noteq> Idle"
  using step_shapes [OF assms(3)] assms(1,2)
  by (elim disjE exE conjE)
    (auto simp: same_data_def nth_append nth_list_update_any)

lemma binding_step:
  assumes "resources w i = Some a" and "\<forall>tc. c \<noteq> AddResource i tc"
    and "main_step c w = (r, w')"
  shows "resources w' i = Some a"
  using assms
  by (cases c) (auto simp: op_defs Let_def split: option.splits if_splits)

lemma nonidle_run:
  "a < length (rheap w) \<Longrightarrow> res_state (rheap w ! a) \<noteq> Idle \<Longrightarrow>
   a < length (rheap (snd (run cs w))) \<and> res_state (rheap (snd (run cs w)) ! a) \<noteq> Idle"
proof (induction cs arbitrary: w)
  case Nil
  then show ?case by simp
next
  case (Cons c cs)
  have s: "a < length (rheap (snd (main_step c w))) \<and>
      res_state (rheap (snd (main_step c w)) ! a) \<noteq> Idle"
    using Cons.prems nonidle_step [of a w c "fst (main_step c w)" "snd (main_step c w)"]
    by simp
  then show ?case
    using Cons.IH [of "snd (main_step c w)"]
    by (auto split: prod.splits sum.splits)
qed

lemma binding_run:
  "resources w i = Some a \<Longrightarrow> \<forall>tc. AddResource i tc \<notin> set cs \<Longrightarrow>
   resources (snd (run cs w)) i = Some a"
proof (induction cs arbitrary: w)
  case Nil
  then show ?case by simp
next
  case (Cons c cs)
  have "\<forall>tc. c \<noteq> AddResource i tc" using Cons.prems(2) by auto
  then have s: "resources (snd (main_step c w)) i = Some a"
    using Cons.prems(1) binding_step [of w i a c "fst (main_step c w)" "snd (main_step c w)"]
    by simp
  have "\<forall>tc. AddResource i tc \<notin> set cs" using Cons.prems(2) by auto
  then show ?case
    using s Cons.IH [of "snd (main_step c w)"]
    by (auto split: prod.splits sum.splits)
qed

section \<open>Registration\<close>

text \<open>
  Claim C1, as the code has it. Neither \<^verbatim>\<open>addResource\<close> nor \<^verbatim>\<open>addProject\<close> looks
  the id up, and the program has no DuplicateId failure. Registering an id that is
  already present succeeds: the id is bound to a new object (a Resource in state Idle
  with no project, or a Project with an empty vector), so the mapping of that id
  changes; the mappings of all other ids, the other map and every object made before
  stay as they were.
\<close>

theorem register_existing_id_overwrites:
  "(resources w i = Some a \<and> a < length (rheap w) \<and>
    main_step (AddResource i typeChoice) w = (r, w') \<longrightarrow>
      r = Inr () \<and>
      resources w' = (resources w)(i \<mapsto> length (rheap w)) \<and>
      resources w' i \<noteq> resources w i \<and>
      rheap w' = rheap w @ [\<lparr>res_id = i, res_type = (if typeChoice = 1 then ''worker'' else ''equipment''),
                              res_state = Idle, allocatedProject = None\<rparr>] \<and>
      pheap w' = pheap w \<and> projects w' = projects w) \<and>
   (projects w i = Some b \<and> b < length (pheap w) \<and>
    main_step (AddProject i n) w = (r, w') \<longrightarrow>
      r = Inr () \<and>
      projects w' = (projects w)(i \<mapsto> length (pheap w)) \<and>
      projects w' i \<noteq> projects w i \<and>
      pheap w' = pheap w @ [\<lparr>proj_id = i, proj_name = n, proj_resources = []\<rparr>] \<and>
      rheap w' = rheap w \<and> resources w' = resources w)"
  by (auto simp: op_defs Let_def)

theorem register_existing_id_overwrites_witness:
  "resources registered_world ''R1'' = Some 0 \<and> 0 < length (rheap registered_world) \<and>
   fst (main_step (AddResource ''R1'' 1) registered_world) = Inr () \<and>
   resources (snd (main_step (AddResource ''R1'' 1) registered_world)) ''R1'' = Some 2 \<and>
   resources (snd (main_step (AddResource ''R1'' 1) registered_world)) ''R2'' = Some 1 \<and>
   rheap (snd (main_step (AddResource ''R1'' 1) registered_world)) =
     rheap registered_world @
       [\<lparr>res_id = ''R1'', res_type = ''worker'', res_state = Idle, allocatedProject = None\<rparr>] \<and>
   projects registered_world ''P1'' = Some 0 \<and> 0 < length (pheap registered_world) \<and>
   fst (main_step (AddProject ''P1'' ''Beta'') registered_world) = Inr () \<and>
   projects (snd (main_step (AddProject ''P1'' ''Beta'') registered_world)) ''P1'' = Some 1 \<and>
   pheap (snd (main_step (AddProject ''P1'' ''Beta'') registered_world)) =
     pheap registered_world @
       [\<lparr>proj_id = ''P1'', proj_name = ''Beta'', proj_resources = []\<rparr>]"
  using
    register_existing_id_overwrites [of registered_world "''R1''" 0 1
      "fst (main_step (AddResource ''R1'' 1) registered_world)"
      "snd (main_step (AddResource ''R1'' 1) registered_world)" 0 "''Beta''"]
    register_existing_id_overwrites [of registered_world "''P1''" 0 1
      "fst (main_step (AddProject ''P1'' ''Beta'') registered_world)"
      "snd (main_step (AddProject ''P1'' ''Beta'') registered_world)" 0 "''Beta''"]
  by (simp add: registered_world_data Resource_ctor_def Project_ctor_def)

text \<open>
  Against C1 as stated: with R1 registered, registering R1 again returns normally and
  R1 is bound to another object than before; the same for project P1.
\<close>

theorem register_existing_id_succeeds:
  "resources used_world ''R1'' = Some 0 \<and>
   fst (main_step (AddResource ''R1'' 1) used_world) = Inr () \<and>
   resources (snd (main_step (AddResource ''R1'' 1) used_world)) ''R1'' = Some 1 \<and>
   projects registered_world ''P1'' = Some 0 \<and>
   fst (main_step (AddProject ''P1'' ''Beta'') registered_world) = Inr () \<and>
   projects (snd (main_step (AddProject ''P1'' ''Beta'') registered_world)) ''P1'' = Some 1"
  by (simp add: used_world_data registered_world_data op_defs Let_def)

text \<open>
  Claim C5. Whatever the state before, registering \<open>i\<close> and then displaying \<open>i\<close>
  both succeed, and the display writes "Resource i is Idle." with no project clause.
\<close>

theorem register_then_display_Idle:
  "main_step (AddResource i typeChoice) w = (r1, w1) \<Longrightarrow>
   main_step (DisplayResourceState i) w1 = (r2, w2) \<Longrightarrow>
   r1 = Inr () \<and> r2 = Inr () \<and>
   cout w2 = cout w1 @ menu @ ''Enter Resource ID to display state: '' @
             ''Resource '' @ i @ '' is '' @ ''Idle'' @ ''.\<newline>''"
  by (auto simp: op_defs Let_def state_text_def)

theorem register_then_display_Idle_witness:
  "fst (main_step (AddResource ''R1'' 2) used_world) = Inr () \<and>
   fst (main_step (DisplayResourceState ''R1'')
          (snd (main_step (AddResource ''R1'' 2) used_world))) = Inr () \<and>
   cout (snd (main_step (DisplayResourceState ''R1'')
          (snd (main_step (AddResource ''R1'' 2) used_world)))) =
     cout (snd (main_step (AddResource ''R1'' 2) used_world)) @ menu @
       ''Enter Resource ID to display state: Resource R1 is Idle.\<newline>''"
  using register_then_display_Idle [of "''R1''" 2 used_world
      "fst (main_step (AddResource ''R1'' 2) used_world)"
      "snd (main_step (AddResource ''R1'' 2) used_world)"
      "fst (main_step (DisplayResourceState ''R1'')
          (snd (main_step (AddResource ''R1'' 2) used_world)))"
      "snd (main_step (DisplayResourceState ''R1'')
          (snd (main_step (AddResource ''R1'' 2) used_world)))"]
  by simp

section \<open>Maintenance\<close>

text \<open>
  Claim C2. For a resource registered under \<open>i\<close>, the Maintain command never fails.
  When the resource's type is equipment, its state becomes UnderMaintenance and the
  log grows by exactly the record "Resource i is under maintenance."; for any other
  type (a worker) the state and the log stay as they were, and the ineligibility is
  reported on the console only.
\<close>

theorem maintain_equipment_only:
  "resources w i = Some a \<Longrightarrow> a < length (rheap w) \<Longrightarrow>
   main_step (MaintainResource i) w = (r, w') \<Longrightarrow>
   r = Inr () \<and>
   (res_type (rheap w ! a) = ''equipment'' \<longrightarrow>
      res_state (rheap w' ! a) = UnderMaintenance \<and>
      log_file w' = log_file w @ [''Resource '' @ i @ '' is under maintenance.'']) \<and>
   (res_type (rheap w ! a) \<noteq> ''equipment'' \<longrightarrow>
      res_state (rheap w' ! a) = res_state (rheap w ! a) \<and>
      log_file w' = log_file w \<and>
      cout w' = cout w @ menu @ ''Enter Resource ID to maintain: '' @
                ''Resource '' @ i @ '' is not equipment and cannot be maintained.\<newline>'')"
  by (auto simp: op_defs Let_def split: if_splits)

theorem maintain_equipment_only_witness:
  "resources registered_world ''R1'' = Some 0 \<and>
   0 < length (rheap registered_world) \<and>
   res_type (rheap registered_world ! 0) = ''equipment'' \<and>
   res_state (rheap (snd (main_step (MaintainResource ''R1'') registered_world)) ! 0) =
     UnderMaintenance \<and>
   log_file (snd (main_step (MaintainResource ''R1'') registered_world)) =
     log_file registered_world @ [''Resource R1 is under maintenance.''] \<and>
   resources registered_world ''R2'' = Some 1 \<and>
   1 < length (rheap registered_world) \<and>
   res_type (rheap registered_world ! 1) = ''worker'' \<and>
   res_state (rheap (snd (main_step (MaintainResource ''R2'') registered_world)) ! 1) =
     Idle \<and>
   log_file (snd (main_step (MaintainResource ''R2'') registered_world)) =
     log_file registered_world"
  using
    maintain_equipment_only [of registered_world "''R1''" 0
      "fst (main_step (MaintainResource ''R1'') registered_world)"
      "snd (main_step (MaintainResource ''R1'') registered_world)"]
    maintain_equipment_only [of registered_world "''R2''" 1
      "fst (main_step (MaintainResource ''R2'') registered_world)"
      "snd (main_step (MaintainResource ''R2'') registered_world)"]
  by (simp add: registered_world_data Resource_ctor_def)

section \<open>Allocation\<close>

text \<open>
  Claim C3. Allocating the resource registered under \<open>i\<close> to the project registered
  under \<open>n\<close> succeeds, sets the resource's state to InUse, appends the resource to
  the end of the project's vector, which so holds it once more than before, points
  the resource back to the project, and appends the one log record "Resource i
  allocated to project" with the project's name. Doing it a second time appends the
  resource again: the vector then holds it twice more than at the start.
\<close>

theorem allocate_links_and_logs:
  "resources w i = Some a \<Longrightarrow> a < length (rheap w) \<Longrightarrow>
   projects w n = Some b \<Longrightarrow> b < length (pheap w) \<Longrightarrow>
   main_step (AllocateResource i n) w = (r, w') \<Longrightarrow>
   main_step (AllocateResource i n) w' = (r2, w'') \<Longrightarrow>
   r = Inr () \<and>
   res_state (rheap w' ! a) = InUse \<and>
   proj_resources (pheap w' ! b) = proj_resources (pheap w ! b) @ [a] \<and>
   count_list (proj_resources (pheap w' ! b)) a =
     count_list (proj_resources (pheap w ! b)) a + 1 \<and>
   allocatedProject (rheap w' ! a) = Some b \<and>
   log_file w' =
     log_file w @ [''Resource '' @ i @ '' allocated to project '' @ proj_name (pheap w ! b)] \<and>
   r2 = Inr () \<and>
   proj_resources (pheap w'' ! b) = proj_resources (pheap w ! b) @ [a, a] \<and>
   count_list (proj_resources (pheap w'' ! b)) a =
     count_list (proj_resources (pheap w ! b)) a + 2"
  by (auto simp: op_defs Let_def)

theorem allocate_links_and_logs_witness:
  "resources registered_world ''R2'' = Some 1 \<and> 1 < length (rheap registered_world) \<and>
   projects registered_world ''P1'' = Some 0 \<and> 0 < length (pheap registered_world) \<and>
   fst (main_step (AllocateResource ''R2'' ''P1'') registered_world) = Inr () \<and>
   res_state (rheap (snd (main_step (AllocateResource ''R2'' ''P1'') registered_world)) ! 1) = InUse \<and>
   proj_resources (pheap (snd (main_step (AllocateResource ''R2'' ''P1'') registered_world)) ! 0) = [1] \<and>
   allocatedProject (rheap (snd (main_step (AllocateResource ''R2'' ''P1'') registered_world)) ! 1) = Some 0 \<and>
   log_file (snd (main_step (AllocateResource ''R2'' ''P1'') registered_world)) =
     log_file registered_world @ [''Resource R2 allocated to project Alpha''] \<and>
   proj_resources (pheap (snd (main_step (AllocateResource ''R2'' ''P1'')
      (snd (main_step (AllocateResource ''R2'' ''P1'') registered_world)))) ! 0) = [1, 1]"
  using
    allocate_links_and_logs [of registered_world "''R2''" 1 "''P1''" 0
      "fst (main_step (AllocateResource ''R2'' ''P1'') registered_world)"
      "snd (main_step (AllocateResource ''R2'' ''P1'') registered_world)"
      "fst (main_step (AllocateResource ''R2'' ''P1'')
          (snd (main_step (AllocateResource ''R2'' ''P1'') registered_world)))"
      "snd (main_step (AllocateResource ''R2'' ''P1'')
          (snd (main_step (AllocateResource ''R2'' ''P1'') registered_world)))"]
  by (simp add: registered_world_data Project_ctor_def)

text \<open>
  Claim C4, as the code has it. In every reachable state, a resource in a project's
  vector points back to some project, and that project's vector has the resource. The
  project pointed to is the very project whose vector is looked at in every state
  reached without allocating a resource that points back to a different project.
\<close>

theorem allocated_lists_and_backrefs:
  "(reachable w \<longrightarrow> listed_backref_some w) \<and>
   (reachable_without_reallocation w \<longrightarrow> list_backref_inv w)"
proof
  show "reachable w \<longrightarrow> listed_backref_some w"
  proof
    assume "reachable w"
    then have l: "wf_world w" "backref_listed w" "listed_allocated w"
      using reachable_links by auto
    show "listed_backref_some w"
      unfolding listed_backref_some_def
    proof (intro allI impI ballI)
      fix b a
      assume b: "b < length (pheap w)" and a: "a \<in> set (proj_resources (pheap w ! b))"
      then obtain b' where b': "allocatedProject (rheap w ! a) = Some b'"
        using l(3) by (auto simp: listed_allocated_def)
      have "a < length (rheap w)" using l(1) a b by (auto simp: wf_world_def)
      then have "b' < length (pheap w)" and "a \<in> set (proj_resources (pheap w ! b'))"
        using b' l(1,2) by (auto simp: wf_world_def backref_listed_def)
      then show "\<exists>b'<length (pheap w). allocatedProject (rheap w ! a) = Some b' \<and>
           a \<in> set (proj_resources (pheap w ! b'))"
        using b' by blast
    qed
  qed
  show "reachable_without_reallocation w \<longrightarrow> list_backref_inv w"
  proof
    assume "reachable_without_reallocation w"
    then show "list_backref_inv w"
    proof (induction rule: reachable_without_reallocation.induct)
      case rwr_init
      show ?case by (simp add: list_backref_inv_def init_world_def)
    next
      case (rwr_step w c r w')
      then show ?case
        using list_inv_step [of w c r w'] rwr_reachable reachable_wf by blast
    qed
  qed
qed

theorem allocated_lists_and_backrefs_witness:
  "reachable reallocated_world \<and> listed_backref_some reallocated_world \<and>
   reachable_without_reallocation maintained_world \<and> list_backref_inv maintained_world \<and>
   proj_resources (pheap maintained_world ! 0) = [0] \<and>
   allocatedProject (rheap maintained_world ! 0) = Some 0"
proof -
  have "no_reallocation [AddResource ''R1'' 2, AddProject ''P1'' ''Alpha'',
               AllocateResource ''R1'' ''P1'', MaintainResource ''R1''] init_world"
    by (simp add: reallocates_def op_defs Let_def init_world_def)
  then have "reachable_without_reallocation maintained_world"
    unfolding maintained_world_def by (rule run_rwr [OF rwr_init])
  then show ?thesis
    using allocated_lists_and_backrefs [of reallocated_world] allocated_lists_and_backrefs [of maintained_world]
    by (simp add: reachable_examples maintained_world_data)
qed

text \<open>
  Against C4 as stated: after allocating R1 to P1 and then to P2, the vector of P1
  still holds R1, and R1 points back to P2.
\<close>

theorem reallocation_leaves_stale_entry:
  "reachable reallocated_world \<and>
   projects reallocated_world ''P1'' = Some 0 \<and>
   resources reallocated_world ''R1'' = Some 0 \<and>
   0 \<in> set (proj_resources (pheap reallocated_world ! 0)) \<and>
   allocatedProject (rheap reallocated_world ! 0) = Some 1 \<and>
   \<not> list_backref_inv reallocated_world"
proof -
  have "\<not> list_backref_inv reallocated_world"
  proof
    assume "list_backref_inv reallocated_world"
    then have "0 < length (pheap reallocated_world) \<longrightarrow>
        (\<forall>a\<in>set (proj_resources (pheap reallocated_world ! 0)).
           allocatedProject (rheap reallocated_world ! a) = Some 0)"
      unfolding list_backref_inv_def by (rule spec)
    then have "allocatedProject (rheap reallocated_world ! 0) = Some 0"
      by (simp add: reallocated_world_data)
    then show False by (simp add: reallocated_world_data)
  qed
  then show ?thesis
    by (simp add: reachable_examples reallocated_world_data)
qed

text \<open>
  Claim C9. In every reachable state every Resource object whose state is Idle has a
  null \<^verbatim>\<open>allocatedProject\<close>, the objects registered in the map among them; and each
  command, whichever it is, keeps that property.
\<close>

theorem idle_has_no_backref:
  "(reachable w \<longrightarrow> idle_unallocated w) \<and>
   (idle_unallocated w \<longrightarrow> idle_unallocated (snd (main_step c w)))"
proof
  show "reachable w \<longrightarrow> idle_unallocated w"
  proof
    assume "reachable w"
    then show "idle_unallocated w"
      by (induction rule: reachable.induct) (auto intro: idle_init idle_step)
  qed
  show "idle_unallocated w \<longrightarrow> idle_unallocated (snd (main_step c w))"
    using idle_step [of w c "fst (main_step c w)" "snd (main_step c w)"] by simp
qed

theorem idle_has_no_backref_witness:
  "reachable registered_world \<and> idle_unallocated registered_world \<and>
   idle_unallocated (snd (main_step (AllocateResource ''R2'' ''P1'') registered_world)) \<and>
   res_state (rheap registered_world ! 0) = Idle \<and>
   allocatedProject (rheap registered_world ! 0) = None"
  using idle_has_no_backref [of registered_world "AllocateResource ''R2'' ''P1''"]
  by (simp add: reachable_examples registered_world_data Resource_ctor_def)

section \<open>Display\<close>

text \<open>
  Claim C6. Displaying a registered resource succeeds and changes nothing but the
  console, where it writes "Resource i is d." with \<open>d\<close> being "Idle", "In Use" or
  "under maintenance" by the resource's state; \<open>d\<close> goes on with " and allocated to
  project" and the project's name exactly when the state is UnderMaintenance and the
  resource points back to a project, and never when the state is InUse.
\<close>

theorem display_text_read_only:
  "resources w i = Some a \<Longrightarrow> a < length (rheap w) \<Longrightarrow>
   main_step (DisplayResourceState i) w = (r, w') \<Longrightarrow>
   r = Inr () \<and>
   (\<exists>d. w' = w\<lparr>cout := cout w @ menu @ ''Enter Resource ID to display state: '' @
                      ''Resource '' @ i @ '' is '' @ d @ ''.\<newline>''\<rparr> \<and>
        (res_state (rheap w ! a) = Idle \<longrightarrow> d = ''Idle'') \<and>
        (res_state (rheap w ! a) = InUse \<longrightarrow> d = ''In Use'') \<and>
        (res_state (rheap w ! a) = UnderMaintenance \<longrightarrow>
           (allocatedProject (rheap w ! a) = None \<longrightarrow> d = ''under maintenance'') \<and>
           (\<forall>b. allocatedProject (rheap w ! a) = Some b \<longrightarrow>
              d = ''under maintenance'' @ '' and allocated to project '' @
                  proj_name (pheap w ! b))))"
  by (auto simp: op_defs Let_def state_text_def split: ResourceState.splits option.splits)

theorem display_text_read_only_witness:
  "resources maintained_world ''R1'' = Some 0 \<and> 0 < length (rheap maintained_world) \<and>
   res_state (rheap maintained_world ! 0) = UnderMaintenance \<and>
   allocatedProject (rheap maintained_world ! 0) = Some 0 \<and>
   fst (main_step (DisplayResourceState ''R1'') maintained_world) = Inr () \<and>
   snd (main_step (DisplayResourceState ''R1'') maintained_world) =
     maintained_world\<lparr>cout := cout maintained_world @ menu @
       ''Enter Resource ID to display state: '' @
       ''Resource R1 is under maintenance and allocated to project Alpha.\<newline>''\<rparr> \<and>
   resources reallocated_world ''R1'' = Some 0 \<and> 0 < length (rheap reallocated_world) \<and>
   res_state (rheap reallocated_world ! 0) = InUse \<and>
   allocatedProject (rheap reallocated_world ! 0) = Some 1 \<and>
   snd (main_step (DisplayResourceState ''R1'') reallocated_world) =
     reallocated_world\<lparr>cout := cout reallocated_world @ menu @
       ''Enter Resource ID to display state: '' @
       ''Resource R1 is In Use.\<newline>''\<rparr>"
  using
    display_text_read_only [of maintained_world "''R1''" 0
      "fst (main_step (DisplayResourceState ''R1'') maintained_world)"
      "snd (main_step (DisplayResourceState ''R1'') maintained_world)"]
    display_text_read_only [of reallocated_world "''R1''" 0
      "fst (main_step (DisplayResourceState ''R1'') reallocated_world)"
      "snd (main_step (DisplayResourceState ''R1'') reallocated_world)"]
  by (auto simp: maintained_world_data reallocated_world_data)

section \<open>The state machine\<close>

text \<open>
  Claim C7, as the code has it. Along any run, a Resource object that is not Idle
  never becomes Idle again; the state seen under an id \<open>i\<close> never returns to Idle
  along a run that does not register \<open>i\<close> again. Use and Allocate set the state to
  InUse and Maintain on equipment sets it to UnderMaintenance, from any state.
\<close>

theorem never_back_to_Idle:
  "(a < length (rheap w) \<and> res_state (rheap w ! a) \<noteq> Idle \<longrightarrow>
      a < length (rheap (snd (run cs w))) \<and>
      res_state (rheap (snd (run cs w)) ! a) \<noteq> Idle) \<and>
   (resources w i = Some a \<and> a < length (rheap w) \<and> res_state (rheap w ! a) \<noteq> Idle \<and>
    (\<forall>tc. AddResource i tc \<notin> set cs) \<longrightarrow>
      (\<exists>s. state_of (snd (run cs w)) i = Some s \<and> s \<noteq> Idle)) \<and>
   (resources w i = Some a \<and> a < length (rheap w) \<longrightarrow>
      res_state (rheap (snd (main_step (UseResource i) w)) ! a) = InUse \<and>
      (\<forall>n b. projects w n = Some b \<longrightarrow>
         res_state (rheap (snd (main_step (AllocateResource i n) w)) ! a) = InUse) \<and>
      (res_type (rheap w ! a) = ''equipment'' \<longrightarrow>
         res_state (rheap (snd (main_step (MaintainResource i) w)) ! a) = UnderMaintenance))"
proof (intro conjI impI)
  assume "a < length (rheap w) \<and> res_state (rheap w ! a) \<noteq> Idle"
  then show "a < length (rheap (snd (run cs w)))"
    and "res_state (rheap (snd (run cs w)) ! a) \<noteq> Idle"
    using nonidle_run [of a w cs] by auto
next
  assume h: "resources w i = Some a \<and> a < length (rheap w) \<and>
    res_state (rheap w ! a) \<noteq> Idle \<and> (\<forall>tc. AddResource i tc \<notin> set cs)"
  then have "resources (snd (run cs w)) i = Some a"
    using binding_run [of w i a cs] by simp
  moreover have "res_state (rheap (snd (run cs w)) ! a) \<noteq> Idle"
    using h nonidle_run [of a w cs] by simp
  ultimately show "\<exists>s. state_of (snd (run cs w)) i = Some s \<and> s \<noteq> Idle"
    by (simp add: state_of_def)
next
  assume h: "resources w i = Some a \<and> a < length (rheap w)"
  then show "res_state (rheap (snd (main_step (UseResource i) w)) ! a) = InUse"
    using use_effect [of w i a "fst (main_step (UseResource i) w)"
        "snd (main_step (UseResource i) w)"]
    by simp
  show "\<forall>n b. projects w n = Some b \<longrightarrow>
         res_state (rheap (snd (main_step (AllocateResource i n) w)) ! a) = InUse"
  proof (intro allI impI)
    fix n b
    assume "projects w n = Some b"
    then show "res_state (rheap (snd (main_step (AllocateResource i n) w)) ! a) = InUse"
      using h allocate_effect_valid [of w i a n b "fst (main_step (AllocateResource i n) w)"
        "snd (main_step (AllocateResource i n) w)"]
      by simp
  qed
  assume "res_type (rheap w ! a) = ''equipment''"
  then show "res_state (rheap (snd (main_step (MaintainResource i) w)) ! a) = UnderMaintenance"
    using h maintain_effect [of w i a "fst (main_step (MaintainResource i) w)"
        "snd (main_step (MaintainResource i) w)"]
    by simp
qed

theorem never_back_to_Idle_witness:
  "resources maintained_world ''R1'' = Some 0 \<and> 0 < length (rheap maintained_world) \<and>
   res_state (rheap maintained_world ! 0) \<noteq> Idle \<and>
   (\<forall>tc. AddResource ''R1'' tc \<notin>
      set [UseResource ''R1'', AddResource ''R2'' 1, DisplayResourceState ''R1'']) \<and>
   res_state (rheap (snd (run [UseResource ''R1'', AddResource ''R2'' 1,
      DisplayResourceState ''R1''] maintained_world)) ! 0) \<noteq> Idle \<and>
   (\<exists>s. state_of (snd (run [UseResource ''R1'', AddResource ''R2'' 1,
      DisplayResourceState ''R1''] maintained_world)) ''R1'' = Some s \<and> s \<noteq> Idle) \<and>
   res_state (rheap (snd (main_step (UseResource ''R1'') maintained_world)) ! 0) = InUse \<and>
   projects maintained_world ''P1'' = Some 0 \<and>
   res_state (rheap (snd (main_step (AllocateResource ''R1'' ''P1'') maintained_world)) ! 0) =
     InUse \<and>
   res_type (rheap maintained_world ! 0) = ''equipment'' \<and>
   res_state (rheap (snd (main_step (MaintainResource ''R1'') maintained_world)) ! 0) =
     UnderMaintenance"
  using never_back_to_Idle [of 0 maintained_world
      "[UseResource ''R1'', AddResource ''R2'' 1, DisplayResourceState ''R1'']" "''R1''"]
  by (simp add: maintained_world_data)

text \<open>
  Against C7 as stated: R1 is registered and used, and is displayed as "In Use";
  registering R1 again succeeds, and R1 is displayed as "Idle".
\<close>

theorem reregistration_shows_Idle_again:
  "fst (run [AddResource ''R1'' 2, UseResource ''R1''] init_world) = Inr () \<and>
   state_of used_world ''R1'' = Some InUse \<and>
   cout (snd (displayResourceState ''R1'' used_world)) =
     cout used_world @ ''Resource R1 is In Use.\<newline>'' \<and>
   fst (main_step (AddResource ''R1'' 2) used_world) = Inr () \<and>
   state_of (snd (main_step (AddResource ''R1'' 2) used_world)) ''R1'' = Some Idle \<and>
   cout (snd (displayResourceState ''R1'' (snd (main_step (AddResource ''R1'' 2) used_world)))) =
     cout (snd (main_step (AddResource ''R1'' 2) used_world)) @ ''Resource R1 is Idle.\<newline>''"
  by (simp add: used_world_data state_of_def op_defs Let_def state_text_def init_world_def)

section \<open>Failures and frames\<close>

text \<open>
  Claim C8. Use, Maintain, Display and Allocate with a resource id that is not
  registered, and Allocate with a project id that is not registered, end with the
  exception "Resource not found" or "Project not found" (the project is looked up
  first), and leave both stores, both maps and the log as they were.
\<close>

theorem not_found_no_effect:
  "(resources w i = None \<longrightarrow>
      (\<forall>c \<in> {UseResource i, MaintainResource i, DisplayResourceState i}.
         fst (main_step c w) = Inl (runtime_error ''Resource not found'') \<and>
         same_data w (snd (main_step c w))) \<and>
      (\<forall>n. fst (main_step (AllocateResource i n) w) =
             Inl (runtime_error
                    (if projects w n = None then ''Project not found''
                     else ''Resource not found'')) \<and>
           same_data w (snd (main_step (AllocateResource i n) w)))) \<and>
   (projects w n = None \<longrightarrow>
      (\<forall>j. fst (main_step (AllocateResource j n) w) =
             Inl (runtime_error ''Project not found'') \<and>
           same_data w (snd (main_step (AllocateResource j n) w))))"
  by (auto simp: op_defs Let_def same_data_def split: option.splits)

theorem not_found_no_effect_witness:
  "resources registered_world ''R9'' = None \<and>
   fst (main_step (UseResource ''R9'') registered_world) =
     Inl (runtime_error ''Resource not found'') \<and>
   same_data registered_world (snd (main_step (UseResource ''R9'') registered_world)) \<and>
   fst (main_step (MaintainResource ''R9'') registered_world) =
     Inl (runtime_error ''Resource not found'') \<and>
   fst (main_step (DisplayResourceState ''R9'') registered_world) =
     Inl (runtime_error ''Resource not found'') \<and>
   fst (main_step (AllocateResource ''R9'' ''P1'') registered_world) =
     Inl (runtime_error ''Resource not found'') \<and>
   same_data registered_world (snd (main_step (AllocateResource ''R9'' ''P1'') registered_world)) \<and>
   projects registered_world ''P9'' = None \<and>
   fst (main_step (AllocateResource ''R1'' ''P9'') registered_world) =
     Inl (runtime_error ''Project not found'') \<and>
   same_data registered_world (snd (main_step (AllocateResource ''R1'' ''P9'') registered_world))"
  using not_found_no_effect [of registered_world "''R9''" "''P9''"]
  by (simp add: registered_world_data)

text \<open>
  Claim C10. Use and Maintain on a registered resource succeed and change at most the
  state field of that one object: its id, type and project pointer, every other
  Resource object, every Project object and both maps stay as they were.
\<close>

theorem use_maintain_frame:
  assumes "resources w i = Some a" and "a < length (rheap w)"
    and "c \<in> {UseResource i, MaintainResource i}"
    and "main_step c w = (r, w')"
  shows "r = Inr () \<and>
   (\<exists>s. rheap w' = (rheap w)[a := (rheap w ! a)\<lparr>res_state := s\<rparr>]) \<and>
   length (rheap w') = length (rheap w) \<and>
   res_id (rheap w' ! a) = res_id (rheap w ! a) \<and>
   res_type (rheap w' ! a) = res_type (rheap w ! a) \<and>
   allocatedProject (rheap w' ! a) = allocatedProject (rheap w ! a) \<and>
   (\<forall>a'. a' \<noteq> a \<longrightarrow> rheap w' ! a' = rheap w ! a') \<and>
   pheap w' = pheap w \<and> resources w' = resources w \<and> projects w' = projects w"
proof -
  have rest: "r = Inr () \<and> pheap w' = pheap w \<and> resources w' = resources w \<and>
      projects w' = projects w"
    using assms use_effect [of w i a r w'] maintain_effect [of w i a r w'] by auto
  have "\<exists>s. rheap w' = (rheap w)[a := (rheap w ! a)\<lparr>res_state := s\<rparr>]"
  proof (cases "c = UseResource i")
    case True
    then show ?thesis using assms use_effect [of w i a r w'] by blast
  next
    case False
    then have c: "c = MaintainResource i" using assms(3) by simp
    show ?thesis
    proof (cases "res_type (rheap w ! a) = ''equipment''")
      case True
      then show ?thesis using assms c maintain_effect [of w i a r w'] by auto
    next
      case False
      then have "rheap w' = rheap w"
        using assms c maintain_effect [of w i a r w'] by auto
      then have "rheap w' = (rheap w)[a := (rheap w ! a)\<lparr>res_state := res_state (rheap w ! a)\<rparr>]"
        by simp
      then show ?thesis by blast
    qed
  qed
  then obtain s where s: "rheap w' = (rheap w)[a := (rheap w ! a)\<lparr>res_state := s\<rparr>]" ..
  show ?thesis using rest s assms(2) by auto
qed

theorem use_maintain_frame_witness:
  "resources registered_world ''R1'' = Some 0 \<and> 0 < length (rheap registered_world) \<and>
   fst (main_step (UseResource ''R1'') registered_world) = Inr () \<and>
   res_id (rheap (snd (main_step (UseResource ''R1'') registered_world)) ! 0) = ''R1'' \<and>
   res_type (rheap (snd (main_step (UseResource ''R1'') registered_world)) ! 0) = ''equipment'' \<and>
   allocatedProject (rheap (snd (main_step (UseResource ''R1'') registered_world)) ! 0) = None \<and>
   rheap (snd (main_step (UseResource ''R1'') registered_world)) ! 1 = rheap registered_world ! 1 \<and>
   pheap (snd (main_step (UseResource ''R1'') registered_world)) = pheap registered_world \<and>
   fst (main_step (MaintainResource ''R1'') registered_world) = Inr () \<and>
   res_type (rheap (snd (main_step (MaintainResource ''R1'') registered_world)) ! 0) =
     ''equipment'' \<and>
   rheap (snd (main_step (MaintainResource ''R1'') registered_world)) ! 1 =
     rheap registered_world ! 1 \<and>
   pheap (snd (main_step (MaintainResource ''R1'') registered_world)) = pheap registered_world"
  using
    use_maintain_frame [of registered_world "''R1''" 0 "UseResource ''R1''"
      "fst (main_step (UseResource ''R1'') registered_world)"
      "snd (main_step (UseResource ''R1'') registered_world)"]
    use_maintain_frame [of registered_world "''R1''" 0 "MaintainResource ''R1''"
      "fst (main_step (MaintainResource ''R1'') registered_world)"
      "snd (main_step (MaintainResource ''R1'') registered_world)"]
  by (simp add: registered_world_data Resource_ctor_def)

end
